theory Spec2Isabelle
  imports Complex_Main "HOL-Library.AList"
begin

section \<open>Values, errors and tables\<close>

text \<open>
  The two source files, \<^verbatim>\<open>area.py\<close> and \<^verbatim>\<open>rename.py\<close>, transform pandas tables.
  A table is modelled by its column labels, in order, and its rows; a row lists its
  cells with their labels, in column order. A Python exception is a value of
  \<open>py_error\<close>, and a function that can raise returns \<open>py_error + 'a\<close>.
  Column labels are strings of ASCII characters.
\<close>

datatype py_error =
    AttributeError | KeyError | NameError | ValueError | TypeError | InvalidIndexError

text \<open>
  A cell: the missing value, an integer, a string, or a finite float (by its value).
\<close>

datatype cell = NaN | IntC int | StrC string | FloatC rat

type_synonym 'c row = "(string \<times> 'c) list"

record 'c dataframe =
  columns :: "string list"
  rows :: "'c row list"

text \<open>\<^verbatim>\<open>df.empty\<close>: one of the two axes has length 0.\<close>

definition df_empty :: "'c dataframe \<Rightarrow> bool" where
  "df_empty df = (columns df = [] \<or> rows df = [])"

text \<open>\<^verbatim>\<open>pd.DataFrame()\<close>\<close>

definition empty_frame :: "'c dataframe" where
  "empty_frame = \<lparr>columns = [], rows = []\<rparr>"

text \<open>The cell of a row under a label (the first one, should the label repeat).\<close>

definition cell_at :: "'c row \<Rightarrow> string \<Rightarrow> 'c option" where
  "cell_at r c = map_of r c"

text \<open>
  \<^verbatim>\<open>df[name] = v\<close> with a scalar \<open>v\<close>: an existing column is overwritten in place,
  a new one is appended as the last column.
\<close>

definition set_cell :: "string \<Rightarrow> 'c \<Rightarrow> 'c row \<Rightarrow> 'c row" where
  "set_cell name v r =
     (if name \<in> fst ` set r then map (\<lambda>(k, x). if k = name then (k, v) else (k, x)) r
      else r @ [(name, v)])"

definition set_column :: "string \<Rightarrow> 'c \<Rightarrow> 'c dataframe \<Rightarrow> 'c dataframe" where
  "set_column name v df =
     \<lparr>columns = (if name \<in> set (columns df) then columns df else columns df @ [name]),
      rows = map (set_cell name v) (rows df)\<rparr>"

text \<open>\<^verbatim>\<open>df.drop(columns=names, errors='ignore')\<close>\<close>

definition drop_columns :: "string list \<Rightarrow> 'c dataframe \<Rightarrow> 'c dataframe" where
  "drop_columns names df =
     \<lparr>columns = filter (\<lambda>c. c \<notin> set names) (columns df),
      rows = map (filter (\<lambda>(k, x). k \<notin> set names)) (rows df)\<rparr>"

text \<open>\<^verbatim>\<open>df[names]\<close> for labels that are all columns of \<open>df\<close>, kept in the frame's order.\<close>

definition select_columns :: "string list \<Rightarrow> 'c dataframe \<Rightarrow> 'c dataframe" where
  "select_columns names df =
     \<lparr>columns = filter (\<lambda>c. c \<in> set names) (columns df),
      rows = map (filter (\<lambda>(k, x). k \<in> set names)) (rows df)\<rparr>"

text \<open>\<^verbatim>\<open>df[mask]\<close>: the rows a predicate selects.\<close>

definition select_rows :: "('c row \<Rightarrow> bool) \<Rightarrow> 'c dataframe \<Rightarrow> 'c dataframe" where
  "select_rows p df = \<lparr>columns = columns df, rows = filter p (rows df)\<rparr>"

text \<open>
  \<^verbatim>\<open>pd.merge(l, r, on=key, how='inner')\<close>: a missing key column is a \<open>KeyError\<close>.
  A label other than the key that both sides carry gets the suffix \<open>_x\<close> on the left
  and \<open>_y\<close> on the right. The rows follow the left frame's order; each left row is
  joined with every right row of the same key.
\<close>

definition left_label :: "string \<Rightarrow> string list \<Rightarrow> string \<Rightarrow> string" where
  "left_label key rcols c = (if c \<noteq> key \<and> c \<in> set rcols then c @ ''_x'' else c)"

definition right_label :: "string list \<Rightarrow> string \<Rightarrow> string" where
  "right_label lcols c = (if c \<in> set lcols then c @ ''_y'' else c)"

definition merge_row ::
  "string \<Rightarrow> string list \<Rightarrow> string list \<Rightarrow> 'c row \<Rightarrow> 'c row \<Rightarrow> 'c row" where
  "merge_row key lcols rcols lr rr =
     map (\<lambda>(k, x). (left_label key rcols k, x)) lr @
     map (\<lambda>(k, x). (right_label lcols k, x)) (filter (\<lambda>(k, x). k \<noteq> key) rr)"

definition merge_inner ::
  "string \<Rightarrow> 'c dataframe \<Rightarrow> 'c dataframe \<Rightarrow> py_error + 'c dataframe" where
  "merge_inner key l r =
     (if key \<in> set (columns l) \<and> key \<in> set (columns r) then
        Inr \<lparr>columns = map (left_label key (columns r)) (columns l) @
                       map (right_label (columns l)) (filter (\<lambda>c. c \<noteq> key) (columns r)),
             rows = concat (map (\<lambda>lr.
                      map (merge_row key (columns l) (columns r) lr)
                        (filter (\<lambda>rr. cell_at rr key = cell_at lr key) (rows r)))
                      (rows l))\<rparr>
      else Inl KeyError)"

section \<open>Strings and the patterns of \<^verbatim>\<open>area.py\<close>\<close>

definition is_digit :: "char \<Rightarrow> bool" where
  "is_digit c = (c \<in> set ''0123456789'')"

text \<open>\<^verbatim>\<open>s.startswith(p)\<close>\<close>

fun starts_with :: "string \<Rightarrow> string \<Rightarrow> bool" where
  "starts_with [] s = True"
| "starts_with (p # ps) [] = False"
| "starts_with (p # ps) (c # cs) = (p = c \<and> starts_with ps cs)"

text \<open>\<^verbatim>\<open>p in s\<close>\<close>

fun contains_str :: "string \<Rightarrow> string \<Rightarrow> bool" where
  "contains_str p [] = (p = [])"
| "contains_str p (c # cs) = (starts_with p (c # cs) \<or> contains_str p cs)"

text \<open>The pattern \<^verbatim>\<open>AREA\d+\<close> matches at the start of \<open>s\<close>.\<close>

definition area_here :: "string \<Rightarrow> bool" where
  "area_here s =
     (starts_with ''AREA'' s \<and> (case drop 4 s of [] \<Rightarrow> False | d # ds \<Rightarrow> is_digit d))"

text \<open>\<^verbatim>\<open>re.search(r'AREA\d+', col)\<close> finds a match.\<close>

fun search_area :: "string \<Rightarrow> bool" where
  "search_area [] = False"
| "search_area (c # cs) = (area_here (c # cs) \<or> search_area cs)"

text \<open>
  \<^verbatim>\<open>re.sub(r'_\d+$', '', col)\<close>: the \<open>$\<close> also matches before a newline that ends
  the string. The only possible match is the last run of digits, when an underscore
  stands before it.
\<close>

definition sub_num_suffix :: "string \<Rightarrow> string" where
  "sub_num_suffix s =
     (let nl = (if s \<noteq> [] \<and> last s = CHR 0x0A then [CHR 0x0A] else []);
          body = (if nl = [] then s else butlast s);
          ds = takeWhile is_digit (rev body);
          rest = dropWhile is_digit (rev body)
      in case rest of
           [] \<Rightarrow> s
         | u # front \<Rightarrow> if ds \<noteq> [] \<and> u = CHR ''_'' then rev front @ nl else s)"

text \<open>\<^verbatim>\<open>re.sub(r'AREA\d+', '', s)\<close>: every match, from the left, with all its digits.\<close>

function sub_area :: "string \<Rightarrow> string" where
  "sub_area [] = []"
| "sub_area (c # cs) =
     (if area_here (c # cs) then sub_area (dropWhile is_digit (drop 3 cs))
      else c # sub_area cs)"
  by pat_completeness auto
termination
proof (relation "measure length")
  fix c :: char and cs :: string
  have "length (dropWhile is_digit (drop 3 cs)) \<le> length (drop 3 cs)"
    by (rule length_dropWhile_le)
  also have "\<dots> \<le> length cs"
    by simp
  finally show "(dropWhile is_digit (drop 3 cs), c # cs) \<in> measure length"
    by simp
qed simp_all

text \<open>\<^verbatim>\<open>s.replace('__', '_')\<close>\<close>

fun replace_dunder :: "string \<Rightarrow> string" where
  "replace_dunder (a # b # cs) =
     (if a = CHR ''_'' \<and> b = CHR ''_'' then CHR ''_'' # replace_dunder cs
      else a # replace_dunder (b # cs))"
| "replace_dunder cs = cs"

text \<open>Lines 17 and 18: the metric key of a zone-indexed column.\<close>

definition derive_metric :: "string \<Rightarrow> string" where
  "derive_metric col = replace_dunder (sub_area (sub_num_suffix col))"

text \<open>
  \<^verbatim>\<open>str.extract(r'AREA(\d+)')\<close>: the digits of the first match, if there is one.
\<close>

fun extract_area :: "string \<Rightarrow> string option" where
  "extract_area [] = None"
| "extract_area (c # cs) =
     (if area_here (c # cs) then Some (takeWhile is_digit (drop 3 cs))
      else extract_area cs)"

text \<open>\<^verbatim>\<open>int(ds)\<close> for a string of decimal digits.\<close>

definition digit_value :: "char \<Rightarrow> int" where
  "digit_value c = int (length (takeWhile (\<lambda>d. d \<noteq> c) ''0123456789''))"

definition int_of_digits :: "string \<Rightarrow> int" where
  "int_of_digits ds = foldl (\<lambda>n d. 10 * n + digit_value d) 0 ds"

text \<open>\<^verbatim>\<open>str(n)\<close> for a natural number, as the f-string \<^verbatim>\<open>f'AREA{i}'\<close> formats it.\<close>

definition digit_char :: "nat \<Rightarrow> char" where
  "digit_char n = ''0123456789'' ! (n mod 10)"

fun str_nat :: "nat \<Rightarrow> string" where
  "str_nat n = (if n < 10 then [digit_char n] else str_nat (n div 10) @ [digit_char n])"

declare str_nat.simps [simp del]

section \<open>\<^verbatim>\<open>area.py\<close>: \<open>split_zone_data_x\<close>\<close>

text \<open>What the function prints: lines 9, 12 and 49.\<close>

datatype signal = NoAreaColumns | FoundAreaColumns nat | SplitFailed

text \<open>
  Line 14 binds \<open>metrics\<close> to a Python \<open>set\<close>, here the list of its members. Line 19
  calls \<^verbatim>\<open>metrics.append(metric)\<close>: a \<open>set\<close> has \<open>add\<close> and no \<open>append\<close>, so the
  attribute lookup raises \<open>AttributeError\<close> whatever the set and the metric are.
\<close>

definition set_append :: "string list \<Rightarrow> string \<Rightarrow> py_error + string list" where
  "set_append metrics metric = Inl AttributeError"

text \<open>Lines 16 to 19: the loop over the zone-indexed columns.\<close>

fun collect_metrics :: "string list \<Rightarrow> string list \<Rightarrow> py_error + string list" where
  "collect_metrics [] metrics = Inr metrics"
| "collect_metrics (col # cols) metrics =
     (case set_append metrics (derive_metric col) of
        Inl e \<Rightarrow> Inl e
      | Inr metrics' \<Rightarrow> collect_metrics cols metrics')"

text \<open>Lines 24 to 31: the columns of one metric.\<close>

definition metric_columns :: "string \<Rightarrow> string list \<Rightarrow> string list" where
  "metric_columns metric area_col =
     (let metric_polish = takeWhile (\<lambda>c. c \<noteq> CHR ''_'') metric;
          metric_para = (if length metric_polish > 0
                         then drop (length metric_polish + 1) metric else metric)
      in if contains_str ''AB_PRS'' metric_para
         then filter (\<lambda>col. contains_str metric_polish col \<and> contains_str ''AB_PRS'' col
                            \<and> \<not> contains_str ''IL'' col) area_col
         else filter (\<lambda>col. contains_str metric_polish col \<and> contains_str metric_para col)
                area_col)"

text \<open>
  Lines 36 to 44: one metric in long form, a value for each (WAFER_ID, AREA) entry, in
  the order \<open>melt\<close> builds them: column by column, and row by row within a column.
\<close>

record zone_frame =
  metric :: string
  entries :: "((cell \<times> int) \<times> cell) list"

fun sum_map :: "('a \<Rightarrow> 'e + 'b) \<Rightarrow> 'a list \<Rightarrow> 'e + 'b list" where
  "sum_map f [] = Inr []"
| "sum_map f (x # xs) =
     (case f x of
        Inl e \<Rightarrow> Inl e
      | Inr y \<Rightarrow> (case sum_map f xs of Inl e \<Rightarrow> Inl e | Inr ys \<Rightarrow> Inr (y # ys)))"

definition area_number :: "string \<Rightarrow> py_error + int" where
  "area_number col =
     (case extract_area col of None \<Rightarrow> Inl ValueError | Some ds \<Rightarrow> Inr (int_of_digits ds))"

definition cell_or_nan :: "cell row \<Rightarrow> string \<Rightarrow> cell" where
  "cell_or_nan r c = (case cell_at r c of Some v \<Rightarrow> v | None \<Rightarrow> NaN)"

definition melt_metric ::
  "cell dataframe \<Rightarrow> string \<Rightarrow> string list \<Rightarrow> py_error + zone_frame" where
  "melt_metric df m metric_cols =
     (if ''WAFER_ID'' \<in> set (columns df) then
        (case sum_map area_number metric_cols of
           Inl e \<Rightarrow> Inl e
         | Inr areas \<Rightarrow>
             Inr \<lparr>metric = m,
                  entries = concat (map (\<lambda>(c, a).
                              map (\<lambda>r. ((cell_or_nan r ''WAFER_ID'', a), cell_or_nan r c))
                                (rows df))
                              (zip metric_cols areas))\<rparr>)
      else Inl KeyError)"

text \<open>Lines 23 to 46: the loop over the metrics; a metric without columns is skipped.\<close>

fun melt_all ::
  "cell dataframe \<Rightarrow> string list \<Rightarrow> string list \<Rightarrow> zone_frame list
     \<Rightarrow> py_error + zone_frame list" where
  "melt_all df area_col [] dfs_to_concat = Inr dfs_to_concat"
| "melt_all df area_col (m # ms) dfs_to_concat =
     (let metric_cols = metric_columns m area_col
      in if metric_cols = [] then melt_all df area_col ms dfs_to_concat
         else (case melt_metric df m metric_cols of
                 Inl e \<Rightarrow> Inl e
               | Inr melted \<Rightarrow> melt_all df area_col ms (dfs_to_concat @ [melted])))"

text \<open>
  Lines 52 to 56. The library call \<^verbatim>\<open>pd.concat(frames, axis=1).reset_index()\<close> is the
  parameter \<open>concat_reset\<close>: the source fixes neither when it fails nor with which
  error. \<^verbatim>\<open>d.copy()\<close> gives a new object of the same contents, which for a value is
  the value itself. The handler catches every exception of the first call and makes
  the second call outside any \<open>try\<close>.
\<close>

definition frame_copy :: "zone_frame \<Rightarrow> zone_frame" where
  "frame_copy d = d"

definition combine_frames ::
  "(zone_frame list \<Rightarrow> py_error + cell dataframe) \<Rightarrow> zone_frame list
     \<Rightarrow> py_error + cell dataframe" where
  "combine_frames concat_reset dfs_to_concat =
     (case concat_reset dfs_to_concat of
        Inr area_data \<Rightarrow> Inr area_data
      | Inl e \<Rightarrow> concat_reset (map frame_copy dfs_to_concat))"

text \<open>
  Lines 61 to 65. \<^verbatim>\<open>df["AREA"] == i\<close> compares by value, so a float cell can equal
  the integer. \<^verbatim>\<open>df["AREA"]\<close> is a \<open>KeyError\<close> on a frame with no such column.
\<close>

definition area_label :: "nat \<Rightarrow> string" where
  "area_label i = ''AREA'' @ str_nat i"

definition area_is :: "nat \<Rightarrow> cell row \<Rightarrow> bool" where
  "area_is i r =
     (case cell_at r ''AREA'' of
        Some (IntC n) \<Rightarrow> n = int i
      | Some (FloatC q) \<Rightarrow> q = of_nat i
      | _ \<Rightarrow> False)"

definition mark_area :: "nat \<Rightarrow> cell dataframe \<Rightarrow> cell dataframe" where
  "mark_area i df =
     \<lparr>columns = (if area_label i \<in> set (columns df) then columns df
                 else columns df @ [area_label i]),
      rows = map (\<lambda>r. if area_is i r then set_cell (area_label i) (IntC 1) r else r)
               (rows df)\<rparr>"

fun init_loop :: "nat list \<Rightarrow> cell dataframe \<Rightarrow> cell dataframe" where
  "init_loop [] df = df"
| "init_loop (i # is) df = init_loop is (set_column (area_label i) (IntC 0) df)"

fun mark_loop :: "nat list \<Rightarrow> cell dataframe \<Rightarrow> py_error + cell dataframe" where
  "mark_loop [] df = Inr df"
| "mark_loop (i # is) df =
     (if ''AREA'' \<in> set (columns df) then mark_loop is (mark_area i df) else Inl KeyError)"

definition set_indicators :: "cell dataframe \<Rightarrow> py_error + cell dataframe" where
  "set_indicators df = mark_loop [1..<9] (init_loop [1..<9] df)"

text \<open>The function, lines 4 to 67, with what it prints.\<close>

definition split_zone_data_x ::
  "(zone_frame list \<Rightarrow> py_error + cell dataframe) \<Rightarrow> cell dataframe
     \<Rightarrow> signal list \<times> (py_error + cell dataframe)" where
  "split_zone_data_x concat_reset df =
     (let area_col = filter search_area (columns df);
          other_col = filter (\<lambda>col. col \<notin> set area_col) (columns df);
          found = FoundAreaColumns (length area_col)
      in if area_col = [] then ([NoAreaColumns], Inr df)
         else
           (case collect_metrics area_col [] of
              Inl e \<Rightarrow> ([found], Inl e)
            | Inr metrics \<Rightarrow>
                (case melt_all df area_col metrics [] of
                   Inl e \<Rightarrow> ([found], Inl e)
                 | Inr dfs_to_concat \<Rightarrow>
                     if dfs_to_concat = [] then ([found, SplitFailed], Inr df)
                     else
                       ([found],
                        (case combine_frames concat_reset dfs_to_concat of
                           Inl e \<Rightarrow> Inl e
                         | Inr area_data \<Rightarrow>
                             (case merge_inner ''WAFER_ID'' area_data
                                     (select_columns other_col df) of
                                Inl e \<Rightarrow> Inl e
                              | Inr merged \<Rightarrow> set_indicators merged))))))"

section \<open>\<^verbatim>\<open>rename.py\<close>: \<open>ColumnRenameMapper\<close>\<close>

text \<open>
  The logger calls of \<open>process\<close> and of the two renaming methods are left out; the
  methods are \<open>async\<close> and never suspend, so each is a function of its arguments.
  \<open>self.para_info\<close> is the list of its rows, with the two fields that lines 150 and
  177 select; \<open>None\<close> is a null field.
\<close>

definition base_col :: "string list" where
  "base_col = [''PROC_EQP'', ''PRODUCT'', ''RECIPE'', ''PRE_GLB_RAW_VALUE'',
               ''PST_GLB_RAW_VALUE'', ''PRE_M1_TIME'', ''PST_M1_TIME'', ''LOT_ID'',
               ''X_TIME'', ''LOT'']"

record para_row =
  para_name_with_code :: "string option"
  from_src_field :: "string option"

text \<open>\<^verbatim>\<open>rename_map['PARA_NAME_WITH_CODE'].str.contains(marker, na=False)\<close>\<close>

definition tagged :: "string \<Rightarrow> para_row \<Rightarrow> bool" where
  "tagged marker p =
     (case para_name_with_code p of None \<Rightarrow> False | Some s \<Rightarrow> contains_str marker s)"

text \<open>
  \<^verbatim>\<open>dict(zip(keys, values))\<close>: a later pair of the same key replaces the value and
  keeps the key's place.
\<close>

definition dict_zip :: "(string \<times> string) list \<Rightarrow> (string \<times> string) list" where
  "dict_zip ps = foldl (\<lambda>d (k, v). AList.update k v d) [] ps"

text \<open>Lines 150 to 153, and 177 to 180 with the other marker.\<close>

definition rename_dict :: "string \<Rightarrow> para_row list \<Rightarrow> (string \<times> string) list" where
  "rename_dict marker para_info =
     (let mapping = filter (tagged marker) para_info;
          mapping = filter (\<lambda>p. from_src_field p \<noteq> None) mapping
      in dict_zip (List.map_filter
           (\<lambda>p. case (from_src_field p, para_name_with_code p) of
                   (Some src, Some code) \<Rightarrow> Some (src, code)
                 | _ \<Rightarrow> None) mapping))"

text \<open>\<^verbatim>\<open>df.rename(columns=rename_dict)\<close>: a label that is no key stays.\<close>

definition rename_label :: "(string \<times> string) list \<Rightarrow> string \<Rightarrow> string" where
  "rename_label d c = (case map_of d c of Some n \<Rightarrow> n | None \<Rightarrow> c)"

definition rename_columns :: "(string \<times> string) list \<Rightarrow> 'c dataframe \<Rightarrow> 'c dataframe" where
  "rename_columns d df =
     \<lparr>columns = map (rename_label d) (columns df),
      rows = map (map (\<lambda>(k, x). (rename_label d k, x))) (rows df)\<rparr>"

text \<open>
  Lines 136 to 161 and 163 to 188. Nothing in the \<open>try\<close> block can raise on a mapping
  table of this type, so the handler has no branch here.
\<close>

definition rename_columns_polishAC :: "para_row list \<Rightarrow> 'c dataframe \<Rightarrow> 'c dataframe" where
  "rename_columns_polishAC para_info df =
     (if df_empty df \<or> para_info = [] then df
      else rename_columns (rename_dict ''P1_'' para_info) df)"

definition rename_columns_polishBD :: "para_row list \<Rightarrow> 'c dataframe \<Rightarrow> 'c dataframe" where
  "rename_columns_polishBD para_info df =
     (if df_empty df \<or> para_info = [] then df
      else rename_columns (rename_dict ''P2_'' para_info) df)"

text \<open>
  Lines 75 to 80: \<^verbatim>\<open>fillna("").astype(str).str.contains(marker, case=False)\<close> on
  the MODULE cell of a row. A missing tag becomes the empty string and a number its
  decimal text; neither contains a marker, so only a string cell can match.
\<close>

definition lower_char :: "char \<Rightarrow> char" where
  "lower_char c =
     (case map_of (zip ''ABCDEFGHIJKLMNOPQRSTUVWXYZ'' ''abcdefghijklmnopqrstuvwxyz'') c of
        Some l \<Rightarrow> l
      | None \<Rightarrow> c)"

definition module_contains :: "string \<Rightarrow> cell row \<Rightarrow> bool" where
  "module_contains marker r =
     (case cell_at r ''MODULE'' of
        Some (StrC s) \<Rightarrow> contains_str (map lower_char marker) (map lower_char s)
      | _ \<Rightarrow> False)"

text \<open>
  Lines 104 to 112 and 115 to 123: the pairing of two renamed subsets, produced only
  when neither is empty.
\<close>

definition polish_pair ::
  "string \<Rightarrow> cell dataframe \<Rightarrow> cell dataframe \<Rightarrow> py_error + cell dataframe list" where
  "polish_pair label l r =
     (if \<not> df_empty l \<and> \<not> df_empty r then
        (case merge_inner ''WAFER_ID'' l r of
           Inl e \<Rightarrow> Inl e
         | Inr m \<Rightarrow> Inr [set_column ''POLISH'' (StrC label) m])
      else Inr [])"

text \<open>
  \<^verbatim>\<open>pd.concat(frames, ignore_index=True)\<close>: the rows of the frames one after the
  other, under the union of their columns in order of appearance, a missing cell being
  NaN. Frames of different columns cannot be aligned when one repeats a label.
\<close>

definition reindex_row :: "string list \<Rightarrow> cell row \<Rightarrow> cell row" where
  "reindex_row cols r = map (\<lambda>c. (c, cell_or_nan r c)) cols"

definition concat2 :: "cell dataframe \<Rightarrow> cell dataframe \<Rightarrow> py_error + cell dataframe" where
  "concat2 f g =
     (if columns f = columns g then Inr \<lparr>columns = columns f, rows = rows f @ rows g\<rparr>
      else if distinct (columns f) \<and> distinct (columns g) then
        (let cols = columns f @ filter (\<lambda>c. c \<notin> set (columns f)) (columns g)
         in Inr \<lparr>columns = cols, rows = map (reindex_row cols) (rows f @ rows g)\<rparr>)
      else Inl InvalidIndexError)"

fun concat_rows :: "cell dataframe list \<Rightarrow> py_error + cell dataframe" where
  "concat_rows [] = Inl ValueError"
| "concat_rows [f] = Inr f"
| "concat_rows (f # g # fs) =
     (case concat2 f g of Inl e \<Rightarrow> Inl e | Inr h \<Rightarrow> concat_rows (h # fs))"

text \<open>
  Lines 57 to 134. \<open>validate_input\<close> is inherited from \<open>BaseMapper\<close>, whose source is
  not at hand: it is a parameter. A table with several MODULE columns makes
  \<^verbatim>\<open>data["MODULE"]\<close> a table, which has no \<open>str\<close> accessor.
\<close>

definition process ::
  "(cell dataframe \<Rightarrow> bool) \<Rightarrow> para_row list \<Rightarrow> cell dataframe
     \<Rightarrow> py_error + cell dataframe" where
  "process validate_input para_info data =
     (if \<not> validate_input data then Inr data
      else if ''MODULE'' \<notin> set (columns data) then Inr data
      else if 1 < length (filter (\<lambda>c. c = ''MODULE'') (columns data)) then Inl AttributeError
      else
        (let subset = (\<lambda>marker.
               drop_columns [''MODULE''] (select_rows (module_contains marker) data));
             df_polishA_renamed = rename_columns_polishAC para_info (subset ''PolishA'');
             df_polishB_renamed = rename_columns_polishBD para_info (subset ''PolishB'');
             df_polishC_renamed = rename_columns_polishAC para_info (subset ''PolishC'');
             df_polishD_renamed = rename_columns_polishBD para_info (subset ''PolishD'');
             df_polishB_renamed = drop_columns base_col df_polishB_renamed;
             df_polishD_renamed = drop_columns base_col df_polishD_renamed
         in case polish_pair ''AB'' df_polishA_renamed df_polishB_renamed of
              Inl e \<Rightarrow> Inl e
            | Inr ab \<Rightarrow>
                (case polish_pair ''CD'' df_polishC_renamed df_polishD_renamed of
                   Inl e \<Rightarrow> Inl e
                 | Inr cd \<Rightarrow>
                     (let result_dfs = ab @ cd
                      in if result_dfs = [] then Inr empty_frame
                         else concat_rows result_dfs))))"

subsection \<open>The derived thickness columns\<close>

text \<open>
  \<open>_cal_thk_from_raw_value\<close>, lines 190 to 218, works on a table whose cells can also
  hold lists: the list of tokens of a raw value, and the list of the floats parsed
  from them. Python's \<open>float\<close> on a token is the parameter \<open>pyfloat\<close>, \<open>None\<close> where
  it raises \<open>ValueError\<close>; the floats are of an arbitrary type \<open>'f\<close>.
\<close>

datatype 'f tcell = Scalar cell | StrListC "string list" | FloatListC "'f list"

datatype log_event = LogError py_error | LogDebug

text \<open>\<^verbatim>\<open>s.split(',')\<close>\<close>

fun split_comma :: "string \<Rightarrow> string list" where
  "split_comma [] = [[]]"
| "split_comma (c # cs) =
     (if c = CHR '','' then [] # split_comma cs
      else (case split_comma cs of [] \<Rightarrow> [[c]] | t # ts \<Rightarrow> (c # t) # ts))"

definition column_cells :: "'f tcell dataframe \<Rightarrow> string \<Rightarrow> 'f tcell list" where
  "column_cells df name =
     map (\<lambda>r. case cell_at r name of Some v \<Rightarrow> v | None \<Rightarrow> Scalar NaN) (rows df)"

text \<open>\<^verbatim>\<open>df[name] = series\<close>, one value for each row.\<close>

definition assign_column :: "string \<Rightarrow> 'c list \<Rightarrow> 'c dataframe \<Rightarrow> 'c dataframe" where
  "assign_column name vs df =
     \<lparr>columns = (if name \<in> set (columns df) then columns df else columns df @ [name]),
      rows = map (\<lambda>(r, v). set_cell name v r) (zip (rows df) vs)\<rparr>"

text \<open>
  \<^verbatim>\<open>df[name].fillna('').str.split(',')\<close>: a missing column is a \<open>KeyError\<close>; the
  \<open>str\<close> accessor refuses a column of numbers with an \<open>AttributeError\<close>; in a column
  it accepts, a cell that is no string gives NaN.
\<close>

definition fillna_empty :: "'f tcell \<Rightarrow> 'f tcell" where
  "fillna_empty x = (case x of Scalar NaN \<Rightarrow> Scalar (StrC []) | _ \<Rightarrow> x)"

definition is_number :: "'f tcell \<Rightarrow> bool" where
  "is_number x =
     (case x of Scalar (IntC n) \<Rightarrow> True | Scalar (FloatC q) \<Rightarrow> True | _ \<Rightarrow> False)"

definition split_cell :: "'f tcell \<Rightarrow> 'f tcell" where
  "split_cell x = (case x of Scalar (StrC s) \<Rightarrow> StrListC (split_comma s) | _ \<Rightarrow> Scalar NaN)"

definition str_split_column :: "'f tcell dataframe \<Rightarrow> string \<Rightarrow> py_error + 'f tcell list" where
  "str_split_column df name =
     (if name \<notin> set (columns df) then Inl KeyError
      else
        (let filled = map fillna_empty (column_cells df name)
         in if filled \<noteq> [] \<and> list_all is_number filled then Inl AttributeError
            else Inr (map split_cell filled)))"

text \<open>
  The lambda of lines 205 and 208, \<^verbatim>\<open>[float(i) for i in x if i != '']\<close>: NaN cannot be
  iterated.
\<close>

definition parse_cell :: "(string \<Rightarrow> 'f option) \<Rightarrow> 'f tcell \<Rightarrow> py_error + 'f tcell" where
  "parse_cell pyfloat x =
     (case x of
        StrListC ts \<Rightarrow>
          (case sum_map (\<lambda>t. case pyfloat t of None \<Rightarrow> Inl ValueError | Some v \<Rightarrow> Inr v)
                  (filter (\<lambda>t. t \<noteq> []) ts) of
             Inl e \<Rightarrow> Inl e
           | Inr vs \<Rightarrow> Inr (FloatListC vs))
      | FloatListC vs \<Rightarrow> Inr (FloatListC vs)
      | Scalar c \<Rightarrow> Inl TypeError)"

text \<open>
  The lambda of lines 210 and 211, \<^verbatim>\<open>np.mean(x) if x else np.nan\<close>. The module
  imports \<open>pandas\<close> as \<open>pd\<close> and never binds the name \<open>np\<close>: evaluating \<open>np\<close> raises
  \<open>NameError\<close> in either branch, before \<open>mean\<close> or \<open>nan\<close> is looked up.
\<close>

definition np_mean :: "'f list \<Rightarrow> py_error + 'f tcell" where
  "np_mean x = Inl NameError"

definition np_nan :: "py_error + 'f tcell" where
  "np_nan = Inl NameError"

definition thk_cell :: "'f tcell \<Rightarrow> py_error + 'f tcell" where
  "thk_cell x = (case x of FloatListC (v # vs) \<Rightarrow> np_mean (v # vs) | _ \<Rightarrow> np_nan)"

text \<open>
  The statements of the \<open>try\<close> block assign to \<open>df\<close> in place, one after the other.
  When one raises, the handler returns \<open>df\<close> as the statements before it left it.
\<close>

fun run_steps :: "('s \<Rightarrow> py_error + 's) list \<Rightarrow> 's \<Rightarrow> 's \<times> py_error option" where
  "run_steps [] s = (s, None)"
| "run_steps (f # fs) s = (case f s of Inl e \<Rightarrow> (s, Some e) | Inr s' \<Rightarrow> run_steps fs s')"

definition split_step ::
  "string \<Rightarrow> string \<Rightarrow> 'f tcell dataframe \<Rightarrow> py_error + 'f tcell dataframe" where
  "split_step src dst df =
     (case str_split_column df src of
        Inl e \<Rightarrow> Inl e
      | Inr vs \<Rightarrow> Inr (assign_column dst vs df))"

definition apply_step ::
  "('f tcell \<Rightarrow> py_error + 'f tcell) \<Rightarrow> string \<Rightarrow> string \<Rightarrow> 'f tcell dataframe
     \<Rightarrow> py_error + 'f tcell dataframe" where
  "apply_step f src dst df =
     (if src \<notin> set (columns df) then Inl KeyError
      else (case sum_map f (column_cells df src) of
              Inl e \<Rightarrow> Inl e
            | Inr vs \<Rightarrow> Inr (assign_column dst vs df)))"

definition cal_thk_from_raw_value ::
  "(string \<Rightarrow> 'f option) \<Rightarrow> 'f tcell dataframe \<Rightarrow> 'f tcell dataframe \<times> log_event list" where
  "cal_thk_from_raw_value pyfloat df =
     (if df_empty df then (df, [])
      else
        (case run_steps
                [split_step ''PRE_GLB_RAW_VALUE'' ''PRE_VALUE_LIST'',
                 apply_step (parse_cell pyfloat) ''PRE_VALUE_LIST'' ''PRE_VALUE_LIST'',
                 split_step ''PST_GLB_RAW_VALUE'' ''PST_VALUE_LIST'',
                 apply_step (parse_cell pyfloat) ''PST_VALUE_LIST'' ''PST_VALUE_LIST'',
                 apply_step thk_cell ''PRE_VALUE_LIST'' ''PRE_GLB_STI_THK_70000'',
                 apply_step thk_cell ''PST_VALUE_LIST'' ''PST_GLB_CMP_THK_80000''] df of
           (df', Some e) \<Rightarrow> (df', [LogError e])
         | (df', None) \<Rightarrow>
             (drop_columns [''PRE_VALUE_LIST'', ''PST_VALUE_LIST''] df', [LogDebug])))"

section \<open>Example tables\<close>

text \<open>
  An instance of the library call of lines 53 and 56, for the examples: it refuses
  frames of which one repeats a (WAFER_ID, AREA) entry, and otherwise joins the frames
  on the union of their entries.
\<close>

definition concat_reset_model :: "zone_frame list \<Rightarrow> py_error + cell dataframe" where
  "concat_reset_model fs =
     (if fs = [] \<or> list_ex (\<lambda>f. \<not> distinct (map fst (entries f))) fs then Inl ValueError
      else Inr \<lparr>columns = ''WAFER_ID'' # ''AREA'' # map metric fs,
                rows = map (\<lambda>k. (''WAFER_ID'', fst k) # (''AREA'', IntC (snd k)) #
                                 map (\<lambda>f. (metric f,
                                           case map_of (entries f) k of
                                             Some v \<Rightarrow> v
                                           | None \<Rightarrow> NaN)) fs)
                         (remdups (concat (map (\<lambda>f. map fst (entries f)) fs)))\<rparr>)"

text \<open>The table of the scenario: two wafers, two zones of one metric, one plain column.\<close>

definition scenario :: "cell dataframe" where
  "scenario =
     \<lparr>columns = [''WAFER_ID'', ''A_AREA1'', ''A_AREA2'', ''OTHER''],
      rows = [[(''WAFER_ID'', StrC ''W1''), (''A_AREA1'', IntC 10), (''A_AREA2'', IntC 20),
               (''OTHER'', StrC ''x'')],
              [(''WAFER_ID'', StrC ''W2''), (''A_AREA1'', IntC 30), (''A_AREA2'', IntC 40),
               (''OTHER'', StrC ''y'')]]\<rparr>"

text \<open>A table without zone-indexed columns; its AREA column has no digits in its label.\<close>

definition plain_table :: "cell dataframe" where
  "plain_table =
     \<lparr>columns = [''WAFER_ID'', ''AREA''],
      rows = [[(''WAFER_ID'', StrC ''W1''), (''AREA'', IntC 3)]]\<rparr>"





text \<open>The tables of a pairing of wafers {w1, w2} with wafers {w2, w3}.\<close>

definition group_A :: "cell dataframe" where
  "group_A =
     \<lparr>columns = [''WAFER_ID'', ''P1_THK''],
      rows = [[(''WAFER_ID'', StrC ''w1''), (''P1_THK'', IntC 11)],
              [(''WAFER_ID'', StrC ''w2''), (''P1_THK'', IntC 12)]]\<rparr>"

definition group_B :: "cell dataframe" where
  "group_B =
     \<lparr>columns = [''WAFER_ID'', ''P2_THK''],
      rows = [[(''WAFER_ID'', StrC ''w2''), (''P2_THK'', IntC 22)],
              [(''WAFER_ID'', StrC ''w3''), (''P2_THK'', IntC 23)]]\<rparr>"

definition pair_AB :: "cell dataframe" where
  "pair_AB =
     \<lparr>columns = [''WAFER_ID'', ''P1_THK'', ''P2_THK'', ''POLISH''],
      rows = [[(''WAFER_ID'', StrC ''w2''), (''P1_THK'', IntC 12), (''P2_THK'', IntC 22),
               (''POLISH'', StrC ''AB'')]]\<rparr>"

text \<open>An input of \<open>process\<close> with the same wafers, and a mapping table for it.\<close>

definition module_table :: "cell dataframe" where
  "module_table =
     \<lparr>columns = [''WAFER_ID'', ''MODULE'', ''THK''],
      rows = [[(''WAFER_ID'', StrC ''w1''), (''MODULE'', StrC ''PolishA''), (''THK'', IntC 11)],
              [(''WAFER_ID'', StrC ''w2''), (''MODULE'', StrC ''polisha''), (''THK'', IntC 12)],
              [(''WAFER_ID'', StrC ''w2''), (''MODULE'', StrC ''PolishB''), (''THK'', IntC 22)],
              [(''WAFER_ID'', StrC ''w3''), (''MODULE'', StrC ''PolishB''), (''THK'', IntC 23)]]\<rparr>"


definition module_result :: "cell dataframe" where
  "module_result =
     \<lparr>columns = [''WAFER_ID'', ''P1_THK'', ''P2_THK'', ''POLISH''],
      rows = [[(''WAFER_ID'', StrC ''w2''), (''P1_THK'', IntC 12), (''P2_THK'', IntC 22),
               (''POLISH'', StrC ''AB'')]]\<rparr>"

text \<open>A table without a MODULE column.\<close>

definition untagged_table :: "cell dataframe" where
  "untagged_table =
     \<lparr>columns = [''WAFER_ID'', ''THK''],
      rows = [[(''WAFER_ID'', StrC ''w1''), (''THK'', IntC 11)]]\<rparr>"



text \<open>Rows for the derived thickness: a well-formed raw value, and a malformed one.\<close>

definition raw_table :: "'f tcell dataframe" where
  "raw_table =
     \<lparr>columns = [''WAFER_ID'', ''PRE_GLB_RAW_VALUE'', ''PST_GLB_RAW_VALUE''],
      rows = [[(''WAFER_ID'', Scalar (StrC ''w1'')),
               (''PRE_GLB_RAW_VALUE'', Scalar (StrC ''1.0,2.0,3.0'')),
               (''PST_GLB_RAW_VALUE'', Scalar (StrC ''''))]]\<rparr>"

definition malformed_table :: "'f tcell dataframe" where
  "malformed_table =
     \<lparr>columns = [''WAFER_ID'', ''PRE_GLB_RAW_VALUE'', ''PST_GLB_RAW_VALUE''],
      rows = [[(''WAFER_ID'', Scalar (StrC ''w1'')),
               (''PRE_GLB_RAW_VALUE'', Scalar (StrC ''1.0,x,3.0'')),
               (''PST_GLB_RAW_VALUE'', Scalar (StrC ''2.0''))]]\<rparr>"


section \<open>Views used in the properties\<close>

text \<open>The wafer identifiers of the rows of a table.\<close>

definition wafer_ids :: "'c dataframe \<Rightarrow> 'c list" where
  "wafer_ids df = List.map_filter (\<lambda>r. cell_at r ''WAFER_ID'') (rows df)"



text \<open>A table that has no MODULE label, in its columns or in a row.\<close>

definition no_module :: "'c dataframe \<Rightarrow> bool" where
  "no_module df =
     (''MODULE'' \<notin> set (columns df) \<and> list_all (\<lambda>r. ''MODULE'' \<notin> fst ` set r) (rows df))"

text \<open>A pairing: no MODULE label, and a POLISH cell of one of the two literals in every row.\<close>

definition labelled :: "cell row \<Rightarrow> bool" where
  "labelled r =
     (cell_at r ''POLISH'' = Some (StrC ''AB'') \<or> cell_at r ''POLISH'' = Some (StrC ''CD''))"

definition pairing :: "cell dataframe \<Rightarrow> bool" where
  "pairing df =
     (no_module df \<and> ''POLISH'' \<in> set (columns df) \<and> list_all labelled (rows df))"

text \<open>The pairs that line 153 zips: source field and canonical name of the rows kept.\<close>

definition kept_pairs :: "string \<Rightarrow> para_row list \<Rightarrow> (string \<times> string) list" where
  "kept_pairs marker para_info =
     List.map_filter
       (\<lambda>p. case (from_src_field p, para_name_with_code p) of
               (Some src, Some code) \<Rightarrow> Some (src, code)
             | _ \<Rightarrow> None)
       (filter (\<lambda>p. from_src_field p \<noteq> None) (filter (tagged marker) para_info))"

text \<open>
  The two rows as \<open>_cal_thk_from_raw_value\<close> hands them back: with the helper columns
  of lines 204 to 208 that were assigned before the failure, and without the derived
  columns.
\<close>

definition raw_table_returned :: "'f \<Rightarrow> 'f \<Rightarrow> 'f \<Rightarrow> 'f tcell dataframe" where
  "raw_table_returned a b c =
     \<lparr>columns = [''WAFER_ID'', ''PRE_GLB_RAW_VALUE'', ''PST_GLB_RAW_VALUE'',
                 ''PRE_VALUE_LIST'', ''PST_VALUE_LIST''],
      rows = [[(''WAFER_ID'', Scalar (StrC ''w1'')),
               (''PRE_GLB_RAW_VALUE'', Scalar (StrC ''1.0,2.0,3.0'')),
               (''PST_GLB_RAW_VALUE'', Scalar (StrC '''')),
               (''PRE_VALUE_LIST'', FloatListC [a, b, c]),
               (''PST_VALUE_LIST'', FloatListC [])]]\<rparr>"

definition malformed_table_returned :: "'f tcell dataframe" where
  "malformed_table_returned =
     \<lparr>columns = [''WAFER_ID'', ''PRE_GLB_RAW_VALUE'', ''PST_GLB_RAW_VALUE'',
                 ''PRE_VALUE_LIST''],
      rows = [[(''WAFER_ID'', Scalar (StrC ''w1'')),
               (''PRE_GLB_RAW_VALUE'', Scalar (StrC ''1.0,x,3.0'')),
               (''PST_GLB_RAW_VALUE'', Scalar (StrC ''2.0'')),
               (''PRE_VALUE_LIST'', StrListC [''1.0'', ''x'', ''3.0''])]]\<rparr>"

section \<open>Properties of \<open>split_zone_data_x\<close>\<close>

lemma split_zone_data_x_no_area:
  assumes "\<forall>c \<in> set (columns df). \<not> search_area c"
  shows "split_zone_data_x concat_reset df = ([NoAreaColumns], Inr df)"
  using assms by (simp add: split_zone_data_x_def filter_empty_conv)

lemma split_zone_data_x_area:
  assumes "\<exists>c \<in> set (columns df). search_area c"
  shows "split_zone_data_x concat_reset df =
           ([FoundAreaColumns (length (filter search_area (columns df)))], Inl AttributeError)"
proof -
  from assms obtain col cols where "filter search_area (columns df) = col # cols"
    by (cases "filter search_area (columns df)") (auto simp: filter_empty_conv)
  then show ?thesis
    by (simp add: split_zone_data_x_def Let_def set_append_def)
qed

text \<open>
  Claim C1. On the table of the scenario (columns WAFER_ID, A_AREA1, A_AREA2, OTHER,
  wafers W1 and W2) the function prints that it found two zone columns and then raises
  \<open>AttributeError\<close> at line 19: it returns no table, where the claim expects two zone
  rows for each wafer.
\<close>

theorem split_zone_data_x_scenario_raises:
  "split_zone_data_x concat_reset scenario = ([FoundAreaColumns 2], Inl AttributeError)"
  by (simp add: split_zone_data_x_def scenario_def area_here_def is_digit_def set_append_def)

text \<open>
  The metric key that lines 17 and 18 derive for the columns of the scenario keeps the
  underscore before the zone token.
\<close>

lemma derive_metric_scenario:
  "derive_metric ''A_AREA1'' = ''A_''" "derive_metric ''A_AREA2'' = ''A_''"
  by (simp_all add: derive_metric_def sub_num_suffix_def area_here_def is_digit_def)

text \<open>
  Claim C2. The function returns a table exactly when no column label matches
  \<^verbatim>\<open>AREA\d+\<close>; on every table with such a column, the call of \<open>append\<close> on the set
  raises \<open>AttributeError\<close> to the caller.
\<close>

theorem split_zone_data_x_returns_iff:
  "((\<exists>out. snd (split_zone_data_x concat_reset df) = Inr out) =
      (\<forall>c \<in> set (columns df). \<not> search_area c)) \<and>
   ((\<exists>c \<in> set (columns df). search_area c) \<longrightarrow>
      snd (split_zone_data_x concat_reset df) = Inl AttributeError)"
proof (cases "\<exists>c \<in> set (columns df). search_area c")
  case True
  from split_zone_data_x_area [OF True, of concat_reset] True show ?thesis
    by auto
next
  case False
  then have "\<forall>c \<in> set (columns df). \<not> search_area c"
    by simp
  from split_zone_data_x_no_area [OF this, of concat_reset] False show ?thesis
    by simp
qed

theorem split_zone_data_x_returns_iff_witness:
  "search_area ''A_AREA1'' \<and>
   snd (split_zone_data_x concat_reset_model scenario) = Inl AttributeError \<and>
   (\<nexists>out. snd (split_zone_data_x concat_reset_model scenario) = Inr out) \<and>
   (\<exists>out. snd (split_zone_data_x concat_reset_model plain_table) = Inr out)"
proof -
  have zone: "\<exists>c \<in> set (columns scenario). search_area c"
    by (simp add: scenario_def area_here_def is_digit_def)
  have plain: "\<forall>c \<in> set (columns plain_table). \<not> search_area c"
    by (simp add: plain_table_def area_here_def is_digit_def)
  note iff = split_zone_data_x_returns_iff [of concat_reset_model]
  from iff [of scenario] zone
  have "snd (split_zone_data_x concat_reset_model scenario) = Inl AttributeError"
    and "\<nexists>out. snd (split_zone_data_x concat_reset_model scenario) = Inr out"
    by blast+
  moreover from iff [of plain_table] plain
  have "\<exists>out. snd (split_zone_data_x concat_reset_model plain_table) = Inr out"
    by blast
  ultimately show ?thesis
    by (simp add: area_here_def is_digit_def)
qed

text \<open>
  Claim C9. A table with no zone-indexed column is returned as it is, and the only
  thing printed is the notice that there is no such column.
\<close>

theorem split_zone_data_x_identity:
  "(\<forall>c \<in> set (columns df). \<not> search_area c) \<longrightarrow>
     split_zone_data_x concat_reset df = ([NoAreaColumns], Inr df)"
  using split_zone_data_x_no_area by blast

theorem split_zone_data_x_identity_witness:
  "\<not> search_area ''WAFER_ID'' \<and> \<not> search_area ''AREA'' \<and>
   split_zone_data_x concat_reset_model plain_table = ([NoAreaColumns], Inr plain_table)"
proof -
  have plain: "\<forall>c \<in> set (columns plain_table). \<not> search_area c"
    by (simp add: plain_table_def area_here_def is_digit_def)
  from split_zone_data_x_identity [of plain_table concat_reset_model] plain
  have "split_zone_data_x concat_reset_model plain_table = ([NoAreaColumns], Inr plain_table)"
    by blast
  then show ?thesis
    by (simp add: area_here_def is_digit_def)
qed

subsection \<open>The combine step\<close>




subsection \<open>The indicator columns\<close>

lemma cell_at_set_cell:
  "cell_at (set_cell name v r) c = (if c = name then Some v else cell_at r c)"
proof (cases "name \<in> fst ` set r")
  case True
  have "map_of (map (\<lambda>(k, x). if k = name then (k, v) else (k, x)) r) c =
        (if c = name then (if name \<in> fst ` set r then Some v else None) else map_of r c)"
    by (induction r) force+
  with True show ?thesis
    by (simp add: cell_at_def set_cell_def)
next
  case False
  then have "map_of r name = None"
    by (simp add: map_of_eq_None_iff)
  with False show ?thesis
    by (auto simp: cell_at_def set_cell_def map_add_def split: option.splits)
qed






























section \<open>Properties of \<open>ColumnRenameMapper\<close>\<close>

subsection \<open>The rename dictionaries\<close>



lemma set_update_subset: "set (AList.update k v d) \<subseteq> insert (k, v) (set d)"
  by (induction d) auto

lemma set_foldl_update:
  "set (foldl (\<lambda>d (k, v). AList.update k v d) d ps) \<subseteq> set d \<union> set ps"
proof (induction ps arbitrary: d)
  case Nil
  show ?case
    by simp
next
  case (Cons p ps)
  obtain k v where p: "p = (k, v)"
    by (cases p)
  from Cons [of "AList.update k v d"] set_update_subset [of k v d] show ?case
    by (auto simp: p)
qed



lemma set_dict_zip: "set (dict_zip ps) \<subseteq> set ps"
  using set_foldl_update [of "[]" ps] by (simp add: dict_zip_def)


lemma rename_dict_kept_pairs: "rename_dict marker para_info = dict_zip (kept_pairs marker para_info)"
  by (simp add: rename_dict_def kept_pairs_def)


lemma kept_pairs_tagged:
  "(src, code) \<in> set (kept_pairs marker para_info) \<Longrightarrow> contains_str marker code"
  by (auto simp: kept_pairs_def List.map_filter_def tagged_def split: option.splits)

lemma rename_dict_tagged:
  "(src, code) \<in> set (rename_dict marker para_info) \<Longrightarrow> contains_str marker code"
  using set_dict_zip kept_pairs_tagged unfolding rename_dict_kept_pairs by blast






subsection \<open>The pairing of two module subsets\<close>

lemma suffix_x_not_WAFER_ID: "c @ ''_x'' \<noteq> ''WAFER_ID''"
proof
  assume "c @ ''_x'' = ''WAFER_ID''"
  then have "last (c @ ''_x'') = last ''WAFER_ID''"
    by (rule arg_cong)
  then show False
    by simp
qed

lemma suffix_y_not_WAFER_ID: "c @ ''_y'' \<noteq> ''WAFER_ID''"
proof
  assume "c @ ''_y'' = ''WAFER_ID''"
  then have "last (c @ ''_y'') = last ''WAFER_ID''"
    by (rule arg_cong)
  then show False
    by simp
qed

lemma left_label_WAFER_ID:
  "(''WAFER_ID'' = left_label ''WAFER_ID'' rcols c) = (''WAFER_ID'' = c)"
  using suffix_x_not_WAFER_ID [of c] by (auto simp: left_label_def)

lemma right_label_WAFER_ID: "c \<noteq> ''WAFER_ID'' \<Longrightarrow> ''WAFER_ID'' \<noteq> right_label lcols c"
  using suffix_y_not_WAFER_ID [of c] by (auto simp: right_label_def)

lemma map_of_relabel:
  assumes "\<And>k. (key = f k) = (key = k)"
  shows "map_of (map (\<lambda>(k, x). (f k, x)) r) key = map_of r key"
proof (induction r)
  case Nil
  show ?case
    by simp
next
  case (Cons p r)
  obtain k x where p: "p = (k, x)"
    by (cases p)
  show ?case
    unfolding p using Cons assms [of k] by simp
qed

lemma map_of_relabel_others:
  assumes "\<And>k. k \<noteq> key \<Longrightarrow> key \<noteq> g k"
  shows "map_of (map (\<lambda>(k, x). (g k, x)) (filter (\<lambda>(k, x). k \<noteq> key) r)) key = None"
proof (induction r)
  case Nil
  show ?case
    by simp
next
  case (Cons p r)
  obtain k x where p: "p = (k, x)"
    by (cases p)
  show ?case
    unfolding p using Cons assms [of k] by simp
qed

lemma cell_at_merge_row:
  "cell_at (merge_row ''WAFER_ID'' lcols rcols lr rr) ''WAFER_ID'' = cell_at lr ''WAFER_ID''"
proof -
  have left: "map_of (map (\<lambda>(k, x). (left_label ''WAFER_ID'' rcols k, x)) lr) ''WAFER_ID'' =
              map_of lr ''WAFER_ID''"
    by (rule map_of_relabel) (rule left_label_WAFER_ID)
  have right: "map_of (map (\<lambda>(k, x). (right_label lcols k, x))
                  (filter (\<lambda>(k, x). k \<noteq> ''WAFER_ID'') rr)) ''WAFER_ID'' = None"
    by (rule map_of_relabel_others) (rule right_label_WAFER_ID)
  show ?thesis
    unfolding cell_at_def merge_row_def map_of_append map_add_def left right
    by (simp split: option.splits)
qed

lemma set_map_filter: "set (List.map_filter f xs) = {y. \<exists>x \<in> set xs. f x = Some y}"
  by (induction xs) (auto simp: List.map_filter_simps split: option.splits)

lemma set_wafer_ids:
  "set (wafer_ids df) = {w. \<exists>r \<in> set (rows df). cell_at r ''WAFER_ID'' = Some w}"
  by (simp add: wafer_ids_def set_map_filter)

lemma map_filter_set_cell:
  "name \<noteq> c \<Longrightarrow>
     List.map_filter (\<lambda>r. cell_at r c) (map (set_cell name v) xs) =
     List.map_filter (\<lambda>r. cell_at r c) xs"
  by (induction xs) (simp_all add: List.map_filter_simps cell_at_set_cell split: option.splits)

lemma wafer_ids_set_column:
  "name \<noteq> ''WAFER_ID'' \<Longrightarrow> wafer_ids (set_column name v df) = wafer_ids df"
  by (simp add: wafer_ids_def set_column_def map_filter_set_cell)

lemma in_set_joined:
  "row \<in> set (concat (map (\<lambda>x. map (g x) (filter (p x) ys)) xs)) \<longleftrightarrow>
     (\<exists>x \<in> set xs. \<exists>y \<in> set ys. p x y \<and> row = g x y)"
  by auto

lemma wafer_ids_merge_inner:
  assumes "merge_inner ''WAFER_ID'' l r = Inr m"
  shows "set (wafer_ids m) = set (wafer_ids l) \<inter> set (wafer_ids r)"
proof -
  from assms have m: "rows m = concat (map (\<lambda>lr.
        map (merge_row ''WAFER_ID'' (columns l) (columns r) lr)
          (filter (\<lambda>rr. cell_at rr ''WAFER_ID'' = cell_at lr ''WAFER_ID'') (rows r)))
        (rows l))"
    by (auto simp: merge_inner_def split: if_splits)
  have mem: "row \<in> set (rows m) \<longleftrightarrow>
      (\<exists>lr \<in> set (rows l). \<exists>rr \<in> set (rows r).
         cell_at rr ''WAFER_ID'' = cell_at lr ''WAFER_ID'' \<and>
         row = merge_row ''WAFER_ID'' (columns l) (columns r) lr rr)" for row
    unfolding m in_set_joined by blast
  show ?thesis
  proof (intro set_eqI iffI)
    fix w
    assume "w \<in> set (wafer_ids m)"
    then obtain row where "row \<in> set (rows m)" and "cell_at row ''WAFER_ID'' = Some w"
      unfolding set_wafer_ids by blast
    then obtain lr rr where "lr \<in> set (rows l)" and "rr \<in> set (rows r)"
      and "cell_at rr ''WAFER_ID'' = cell_at lr ''WAFER_ID''"
      and "cell_at (merge_row ''WAFER_ID'' (columns l) (columns r) lr rr) ''WAFER_ID'' = Some w"
      unfolding mem by blast
    then have "cell_at lr ''WAFER_ID'' = Some w" and "cell_at rr ''WAFER_ID'' = Some w"
      by (simp_all add: cell_at_merge_row)
    with \<open>lr \<in> set (rows l)\<close> \<open>rr \<in> set (rows r)\<close>
    show "w \<in> set (wafer_ids l) \<inter> set (wafer_ids r)"
      unfolding set_wafer_ids by blast
  next
    fix w
    assume "w \<in> set (wafer_ids l) \<inter> set (wafer_ids r)"
    then obtain lr rr where lr: "lr \<in> set (rows l)" "cell_at lr ''WAFER_ID'' = Some w"
      and rr: "rr \<in> set (rows r)" "cell_at rr ''WAFER_ID'' = Some w"
      unfolding set_wafer_ids by blast
    let ?row = "merge_row ''WAFER_ID'' (columns l) (columns r) lr rr"
    from lr rr have "cell_at rr ''WAFER_ID'' = cell_at lr ''WAFER_ID''"
      by simp
    with lr(1) rr(1) have "?row \<in> set (rows m)"
      unfolding mem by blast
    moreover from lr have "cell_at ?row ''WAFER_ID'' = Some w"
      by (simp add: cell_at_merge_row)
    ultimately show "w \<in> set (wafer_ids m)"
      unfolding set_wafer_ids by blast
  qed
qed

lemma polish_pair_single:
  assumes "polish_pair label a b = Inr [ab]"
  shows "\<exists>m. merge_inner ''WAFER_ID'' a b = Inr m \<and> ab = set_column ''POLISH'' (StrC label) m"
proof (cases "merge_inner ''WAFER_ID'' a b")
  case (Inl e)
  with assms show ?thesis
    by (simp add: polish_pair_def split: if_splits)
next
  case (Inr m)
  with assms show ?thesis
    by (simp add: polish_pair_def split: if_splits)
qed

text \<open>
  Claim C7. A pairing that lines 104 to 112 produce from the renamed group-A subset and
  the renamed group-B subset holds exactly the wafers that occur in both.
\<close>

theorem polish_pair_wafers:
  "polish_pair label a b = Inr [ab] \<longrightarrow>
     set (wafer_ids ab) = set (wafer_ids a) \<inter> set (wafer_ids b)"
proof
  assume "polish_pair label a b = Inr [ab]"
  then obtain m where m: "merge_inner ''WAFER_ID'' a b = Inr m"
    and ab: "ab = set_column ''POLISH'' (StrC label) m"
    using polish_pair_single by blast
  have "wafer_ids ab = wafer_ids m"
    unfolding ab by (rule wafer_ids_set_column) simp
  with wafer_ids_merge_inner [OF m]
  show "set (wafer_ids ab) = set (wafer_ids a) \<inter> set (wafer_ids b)"
    by simp
qed

theorem polish_pair_wafers_witness:
  "wafer_ids group_A = [StrC ''w1'', StrC ''w2''] \<and>
   wafer_ids group_B = [StrC ''w2'', StrC ''w3''] \<and>
   polish_pair ''AB'' group_A group_B = Inr [pair_AB] \<and>
   set (wafer_ids pair_AB) = set (wafer_ids group_A) \<inter> set (wafer_ids group_B) \<and>
   wafer_ids pair_AB = [StrC ''w2'']"
proof -
  have a: "wafer_ids group_A = [StrC ''w1'', StrC ''w2'']"
    by (simp add: wafer_ids_def group_A_def cell_at_def List.map_filter_simps)
  have b: "wafer_ids group_B = [StrC ''w2'', StrC ''w3'']"
    by (simp add: wafer_ids_def group_B_def cell_at_def List.map_filter_simps)
  have ab: "wafer_ids pair_AB = [StrC ''w2'']"
    by (simp add: wafer_ids_def pair_AB_def cell_at_def List.map_filter_simps)
  have pair: "polish_pair ''AB'' group_A group_B = Inr [pair_AB]"
    by (simp add: polish_pair_def merge_inner_def merge_row_def left_label_def right_label_def
          set_column_def set_cell_def df_empty_def cell_at_def group_A_def group_B_def
          pair_AB_def)
  from polish_pair_wafers [of "''AB''" group_A group_B pair_AB] pair
  have "set (wafer_ids pair_AB) = set (wafer_ids group_A) \<inter> set (wafer_ids group_B)"
    by blast
  with a b ab pair show ?thesis
    by blast
qed

subsection \<open>The derived thickness columns\<close>

lemma split_comma_examples:
  "split_comma ''1.0,2.0,3.0'' = [''1.0'', ''2.0'', ''3.0'']"
  "split_comma ''1.0,x,3.0'' = [''1.0'', ''x'', ''3.0'']"
  "split_comma ''2.0'' = [''2.0'']"
  "split_comma '''' = ['''']"
  by simp_all

text \<open>
  Claim C3. For a row whose raw values are \<open>1.0,2.0,3.0\<close> and the empty string, and a
  \<open>float\<close> that parses the three tokens, the tokens are split and parsed, and then the
  lambda of line 210 raises \<open>NameError\<close>, which the handler logs: the table comes back
  with the two helper columns and with neither derived column, so no mean 2.0 and no
  missing value is stored.
\<close>

theorem cal_thk_from_raw_value_name_error:
  "cal_thk_from_raw_value (pyfloat(''1.0'' := Some a, ''2.0'' := Some b, ''3.0'' := Some c))
     raw_table = (raw_table_returned a b c, [LogError NameError]) \<and>
   ''PRE_GLB_STI_THK_70000'' \<notin> set (columns (raw_table_returned a b c)) \<and>
   ''PST_GLB_CMP_THK_80000'' \<notin> set (columns (raw_table_returned a b c))"
  by (simp add: cal_thk_from_raw_value_def raw_table_def raw_table_returned_def df_empty_def
        split_step_def apply_step_def str_split_column_def column_cells_def cell_at_def
        fillna_empty_def is_number_def split_cell_def assign_column_def set_cell_def
        parse_cell_def thk_cell_def np_mean_def np_nan_def)

text \<open>
  Claim C4. For a row whose first raw value is \<open>1.0,x,3.0\<close> and a \<open>float\<close> that refuses
  the token \<open>x\<close>, the \<open>ValueError\<close> of line 205 is caught and logged, and the table that
  comes back is not the input: it has the column \<open>PRE_VALUE_LIST\<close> that line 204 added.
\<close>

theorem cal_thk_from_raw_value_malformed:
  "cal_thk_from_raw_value (pyfloat(''x'' := None)) malformed_table =
     (malformed_table_returned, [LogError ValueError]) \<and>
   columns malformed_table_returned = columns malformed_table @ [''PRE_VALUE_LIST'']"
  by (simp add: cal_thk_from_raw_value_def malformed_table_def malformed_table_returned_def
        df_empty_def split_step_def apply_step_def str_split_column_def column_cells_def
        cell_at_def fillna_empty_def is_number_def split_cell_def assign_column_def
        set_cell_def parse_cell_def split: option.splits)

end
